theory Spec2Isabelle
  imports Complex_Main
begin

section \<open>Conventions of the embedding\<close>

text \<open>
  The two Python modules \<^verbatim>\<open>humanoid/data_analyzer.py\<close> and
  \<^verbatim>\<open>humanoid/utils/logger.py\<close> are embedded as HOL functions.

  \<^item> A Python \<^verbatim>\<open>float\<close> is the real number it denotes (\<^typ>\<open>real\<close>): rounding,
    overflow to infinity and NaN are not part of the model. Every concrete value used
    below (\<open>1.0\<close>, \<open>-2.0\<close>, \<open>6.0\<close>, ...) is a binary floating-point number and every
    operation performed on such values below is exact in IEEE arithmetic.
  \<^item> A Python \<^verbatim>\<open>str\<close> is a \<^typ>\<open>string\<close>; a character is a code point below 256.
    In that range \<^verbatim>\<open>\d\<close> matches the ten ASCII digits only.
  \<^item> A raised exception is a value \<open>Inl e\<close> of the sum type \<open>error + 'a\<close>.
  \<^item> A text file is the list of lines that iterating over it yields (each line still
    carries its line terminator, when it has one).
  \<^item> The operating system is a parameter of the functions that create directories and
    open files: each of its calls returns its outcome, which may be an error.
\<close>

datatype error =
    KeyError string
  | ValueError string
  | AttributeError
  | TypeError
  | RuntimeError
  | FileNotFoundError
  | FileExistsError
  | JSONDecodeError
  | UnicodeDecodeError
  | UnpicklingError

section \<open>data\_analyzer.py\<close>

subsection \<open>The two regular expressions\<close>

text \<open>
  Both patterns of the module have the same shape: a literal text, one capture group
  \<open>(C+)\<close> over a character class \<open>C\<close>, and one literal closing character that is not a
  member of \<open>C\<close>:
  \<^verbatim>\<open>Step (\d+):\<close> and \<^verbatim>\<open>Output Torque: \[([-\d\., ]+)\]\<close>
  (\<^verbatim>\<open>Actions\[0 ~ 11\] --> joint_target: \[([-\d\., ]+)\]\<close> for the action kind).
  Because the closing character is outside the class, backtracking into the greedy group
  can never succeed: the pattern matches at a position exactly when the literal is
  followed by a non-empty maximal run of class characters and then by the closing
  character, and group 1 is that run. \<open>re_match_at\<close> is the match at the start of a
  text, \<open>re_search\<close> is \<^verbatim>\<open>pattern.search\<close>: the leftmost position that matches.
\<close>

definition is_digit :: "char \<Rightarrow> bool" where
  "is_digit c = (c \<in> set ''0123456789'')"

definition is_data_char :: "char \<Rightarrow> bool" where
  \<comment> \<open>the class \<^verbatim>\<open>[-\d\., ]\<close>\<close>
  "is_data_char c = (is_digit c \<or> c \<in> set ''-., '')"

definition re_match_at :: "string \<Rightarrow> (char \<Rightarrow> bool) \<Rightarrow> char \<Rightarrow> string \<Rightarrow> string option" where
  "re_match_at lit cls closing s =
     (if take (length lit) s = lit then
        (let rest = drop (length lit) s;
             grp = takeWhile cls rest;
             after = dropWhile cls rest
         in if grp \<noteq> [] \<and> take 1 after = [closing] then Some grp else None)
      else None)"

fun re_search :: "string \<Rightarrow> (char \<Rightarrow> bool) \<Rightarrow> char \<Rightarrow> string \<Rightarrow> string option" where
  "re_search lit cls closing [] = re_match_at lit cls closing []"
| "re_search lit cls closing (c # cs) =
     (case re_match_at lit cls closing (c # cs) of
        Some g \<Rightarrow> Some g
      | None \<Rightarrow> re_search lit cls closing cs)"

definition step_pattern :: "string \<Rightarrow> string option" where
  \<comment> \<open>\<^verbatim>\<open>re.compile(r"Step (\d+):").search\<close>, returning group 1\<close>
  "step_pattern line = re_search ''Step '' is_digit (CHR '':'') line"

record data_type_spec =
  pattern :: string   \<comment> \<open>the literal text of the pattern, up to and including \<^verbatim>\<open>\[\<close>\<close>
  label :: string

definition DATA_TYPES :: "string \<Rightarrow> data_type_spec option" where
  "DATA_TYPES k =
     (if k = ''torque'' then
        Some \<lparr>pattern = ''Output Torque: ['', label = ''Torque (Nm)''\<rparr>
      else if k = ''action'' then
        Some \<lparr>pattern = ''Actions[0 ~ 11] --> joint_target: ['', label = ''Action''\<rparr>
      else None)"

definition data_pattern :: "data_type_spec \<Rightarrow> string \<Rightarrow> string option" where
  \<comment> \<open>\<^verbatim>\<open>re.compile(DATA_TYPES[data_type]["pattern"]).search\<close>, returning group 1\<close>
  "data_pattern spec line = re_search (pattern spec) is_data_char (CHR '']'') line"

subsection \<open>Conversions: \<^verbatim>\<open>int\<close>, \<^verbatim>\<open>str.split\<close>, \<^verbatim>\<open>float\<close>\<close>

definition digit_val :: "char \<Rightarrow> nat" where
  "digit_val c = of_char c - 48"

definition int_of_digits :: "string \<Rightarrow> nat" where
  \<comment> \<open>\<^verbatim>\<open>int(s)\<close> on a non-empty string of digits (Python integers are unbounded)\<close>
  "int_of_digits ds = foldl (\<lambda>n c. 10 * n + digit_val c) 0 ds"

fun split_comma_space :: "string \<Rightarrow> string list" where
  \<comment> \<open>\<^verbatim>\<open>s.split(", ")\<close>: cut at every occurrence of the separator, from the left\<close>
  "split_comma_space [] = [[]]"
| "split_comma_space [c] = [[c]]"
| "split_comma_space (c # d # cs) =
     (if c = CHR '','' \<and> d = CHR '' '' then [] # split_comma_space cs
      else (case split_comma_space (d # cs) of
              t # ts \<Rightarrow> (c # t) # ts
            | [] \<Rightarrow> [[c]]))"

text \<open>
  \<^verbatim>\<open>float(token)\<close> on the tokens that can reach it. A token is a piece of group 1, so
  it holds only characters of the class \<^verbatim>\<open>[-\d\., ]\<close>. On such a text \<^verbatim>\<open>float\<close>
  strips the surrounding blanks, accepts one optional minus sign and then needs a
  decimal numeral with at least one digit (\<open>12\<close>, \<open>12.\<close>, \<open>.5\<close>, \<open>12.5\<close>); anything else
  raises \<^verbatim>\<open>ValueError\<close>.
\<close>

definition strip_blanks :: "string \<Rightarrow> string" where
  "strip_blanks s = rev (dropWhile (\<lambda>c. c = CHR '' '') (rev (dropWhile (\<lambda>c. c = CHR '' '') s)))"

definition float_error :: "string \<Rightarrow> error" where
  "float_error tok = ValueError (''could not convert string to float: '' @ [CHR 0x27] @ tok @ [CHR 0x27])"

definition decimal_of :: "string \<Rightarrow> real option" where
  \<comment> \<open>an unsigned decimal numeral: digits, optionally a point and more digits\<close>
  "decimal_of s =
     (let ip = takeWhile is_digit s; rest = dropWhile is_digit s in
      case rest of
        [] \<Rightarrow> (if ip = [] then None else Some (real (int_of_digits ip)))
      | c # fp \<Rightarrow>
          (if c = CHR ''.'' \<and> list_all is_digit fp \<and> (ip \<noteq> [] \<or> fp \<noteq> [])
           then Some (real (int_of_digits ip) + real (int_of_digits fp) / 10 ^ length fp)
           else None))"

definition py_float :: "string \<Rightarrow> error + real" where
  "py_float tok =
     (let s = strip_blanks tok in
      case s of
        [] \<Rightarrow> Inl (float_error tok)
      | c # cs \<Rightarrow>
          (if c = CHR ''-'' then
             (case decimal_of cs of None \<Rightarrow> Inl (float_error tok) | Some x \<Rightarrow> Inr (- x))
           else
             (case decimal_of s of None \<Rightarrow> Inl (float_error tok) | Some x \<Rightarrow> Inr x)))"

fun floats :: "string list \<Rightarrow> error + real list" where
  \<comment> \<open>the list comprehension \<^verbatim>\<open>[float(x) for x in ...]\<close>: the first failure is raised\<close>
  "floats [] = Inr []"
| "floats (t # ts) =
     (case py_float t of
        Inl e \<Rightarrow> Inl e
      | Inr x \<Rightarrow> (case floats ts of Inl e \<Rightarrow> Inl e | Inr xs \<Rightarrow> Inr (x # xs)))"

subsection \<open>\<^verbatim>\<open>parse_log_data\<close>\<close>

text \<open>
  The loop state is \<open>(current_step, steps, data_matrix)\<close>. \<open>process_line\<close> is one
  iteration of the loop body: the step rule first, then the data rule, each evaluated
  on its own; the data rule appends only when a step is known (the conjunction
  short-circuits, so the values of a line seen before any step are never converted).
\<close>

type_synonym scan_state = "nat option \<times> nat list \<times> real list list"

definition process_line :: "data_type_spec \<Rightarrow> scan_state \<Rightarrow> string \<Rightarrow> error + scan_state" where
  "process_line spec st line =
     (case st of (current_step, steps, data_matrix) \<Rightarrow>
        (let current_step' =
               (case step_pattern line of
                  Some g \<Rightarrow> Some (int_of_digits g)
                | None \<Rightarrow> current_step)
         in case data_pattern spec line of
              None \<Rightarrow> Inr (current_step', steps, data_matrix)
            | Some g \<Rightarrow>
                (case current_step' of
                   None \<Rightarrow> Inr (current_step', steps, data_matrix)
                 | Some n \<Rightarrow>
                     (case floats (split_comma_space g) of
                        Inl e \<Rightarrow> Inl e
                      | Inr vals \<Rightarrow> Inr (current_step', steps @ [n], data_matrix @ [vals])))))"

fun scan_lines :: "data_type_spec \<Rightarrow> scan_state \<Rightarrow> string list \<Rightarrow> error + scan_state" where
  "scan_lines spec st [] = Inr st"
| "scan_lines spec st (line # rest) =
     (case process_line spec st line of
        Inl e \<Rightarrow> Inl e
      | Inr st' \<Rightarrow> scan_lines spec st' rest)"

text \<open>
  \<^verbatim>\<open>np.array(data_matrix)\<close> on a list of rows of floats: a two-dimensional array when
  all rows have one length. On rows of differing lengths NumPy (from version 1.24 on)
  raises \<^verbatim>\<open>ValueError\<close> (inhomogeneous shape). An array is represented by its list of
  rows.
\<close>

definition rectangular :: "'a list list \<Rightarrow> bool" where
  "rectangular rows = list_all (\<lambda>r. length r = length (hd rows)) rows"

definition np_array :: "real list list \<Rightarrow> error + real list list" where
  "np_array rows =
     (if rectangular rows then Inr rows
      else Inl (ValueError ''setting an array element with a sequence (inhomogeneous shape)''))"

definition parse_log_data :: "string list \<Rightarrow> string \<Rightarrow> error + (nat list \<times> real list list)" where
  "parse_log_data log_lines data_type =
     (case DATA_TYPES data_type of
        None \<Rightarrow> Inl (KeyError data_type)
      | Some spec \<Rightarrow>
          (case scan_lines spec (None, [], []) log_lines of
             Inl e \<Rightarrow> Inl e
           | Inr (current_step, steps, data_matrix) \<Rightarrow>
               (case np_array data_matrix of
                  Inl e \<Rightarrow> Inl e
                | Inr m \<Rightarrow> Inr (steps, m))))"

subsection \<open>\<^verbatim>\<open>calculate_stats\<close>\<close>

text \<open>
  The reductions run along axis 0, that is over the rows, one result per column.
  \<^verbatim>\<open>np.max\<close> of an array without rows raises \<^verbatim>\<open>ValueError\<close> (a reduction without
  identity over no element). \<^verbatim>\<open>np.mean\<close> is the sum divided by the number of rows and
  \<^verbatim>\<open>np.std\<close> (default \<^verbatim>\<open>ddof=0\<close>) is the square root of the mean of the squared
  absolute deviations from the mean.
\<close>

record stats =
  max_abs :: "real list"
  mean :: "real list"
  mean_abs :: "real list"
  std :: "real list"

definition column :: "real list list \<Rightarrow> nat \<Rightarrow> real list" where
  "column m c = map (\<lambda>r. r ! c) m"

definition np_max :: "real list \<Rightarrow> real" where
  "np_max xs = fold max (tl xs) (hd xs)"

definition np_mean :: "real list \<Rightarrow> real" where
  "np_mean xs = sum_list xs / real (length xs)"

definition np_std :: "real list \<Rightarrow> real" where
  "np_std xs = sqrt (np_mean (map (\<lambda>x. \<bar>x - np_mean xs\<bar> ^ 2) xs))"

definition along_axis0 :: "(real list \<Rightarrow> real) \<Rightarrow> real list list \<Rightarrow> real list" where
  "along_axis0 f m = map (\<lambda>c. f (column m c)) [0..<length (hd m)]"

definition calculate_stats :: "real list list \<Rightarrow> error + stats" where
  "calculate_stats data_matrix =
     (if data_matrix = [] then
        Inl (ValueError ''zero-size array to reduction operation maximum which has no identity'')
      else
        Inr \<lparr>max_abs = along_axis0 np_max (map (map abs) data_matrix),
             mean = along_axis0 np_mean data_matrix,
             mean_abs = along_axis0 np_mean (map (map abs) data_matrix),
             std = along_axis0 np_std data_matrix\<rparr>)"

section \<open>utils/logger.py\<close>

subsection \<open>Logged values and the logger\<close>

text \<open>
  \<^verbatim>\<open>log_state\<close> accepts any object. The code of \<^verbatim>\<open>_convert_log\<close> tells three kinds
  of objects apart, and so does the model:
  \<^item> \<open>Plain n\<close>: a Python number, or a (nested) list of numbers, with contents \<open>n\<close>;
  \<^item> \<open>Tensor n\<close>: a PyTorch tensor (it has the attribute \<^verbatim>\<open>cpu\<close>); \<open>n\<close> is what
    \<^verbatim>\<open>.cpu().numpy().tolist()\<close> and \<^verbatim>\<open>.tolist()\<close> return;
  \<^item> \<open>NdArray n\<close>: a \<^verbatim>\<open>numpy.ndarray\<close>; \<open>n\<close> is what \<^verbatim>\<open>.tolist()\<close> returns.

  A \<^verbatim>\<open>defaultdict(list)\<close> is the list of its items in insertion order, with distinct
  keys. The field \<^verbatim>\<open>plot_process\<close> belongs to the plotting and is left out.
\<close>

datatype nested = Num real | Lst "nested list"

datatype pyval = Plain nested | Tensor nested | NdArray nested

type_synonym series_log = "(string \<times> pyval list) list"

record logger =
  state_log :: series_log
  rew_log :: series_log
  dt :: real
  num_episodes :: int

definition init :: "real \<Rightarrow> logger" where
  "init dt0 = \<lparr>state_log = [], rew_log = [], dt = dt0, num_episodes = 0\<rparr>"


fun dd_append :: "series_log \<Rightarrow> string \<Rightarrow> pyval \<Rightarrow> series_log" where
  "dd_append [] key v = [(key, [v])]"
| "dd_append ((k, vs) # rest) key v =
     (if k = key then (k, vs @ [v]) # rest else (k, vs) # dd_append rest key v)"


definition log_state :: "logger \<Rightarrow> string \<Rightarrow> pyval \<Rightarrow> logger" where
  "log_state self key v = self\<lparr>state_log := dd_append (state_log self) key v\<rparr>"

definition log_states :: "logger \<Rightarrow> (string \<times> pyval) list \<Rightarrow> logger" where
  "log_states self d = fold (\<lambda>(key, v) s. log_state s key v) d self"






definition reset :: "logger \<Rightarrow> logger" where
  "reset self = self\<lparr>state_log := [], rew_log := []\<rparr>"

subsection \<open>\<^verbatim>\<open>_convert_log\<close>\<close>

text \<open>
  Only the first value of a series decides how the whole series is converted. A value
  without the method that the chosen branch calls raises \<^verbatim>\<open>AttributeError\<close>: a Python
  number, a list and an \<^verbatim>\<open>ndarray\<close> have no \<^verbatim>\<open>cpu\<close>; a number and a list have no
  \<^verbatim>\<open>tolist\<close> (a tensor has one).
\<close>

definition cpu_numpy_tolist :: "pyval \<Rightarrow> error + pyval" where
  "cpu_numpy_tolist v = (case v of Tensor n \<Rightarrow> Inr (Plain n) | _ \<Rightarrow> Inl AttributeError)"

definition tolist :: "pyval \<Rightarrow> error + pyval" where
  "tolist v =
     (case v of NdArray n \<Rightarrow> Inr (Plain n) | Tensor n \<Rightarrow> Inr (Plain n) | Plain n \<Rightarrow> Inl AttributeError)"

fun try_map :: "('a \<Rightarrow> error + 'b) \<Rightarrow> 'a list \<Rightarrow> error + 'b list" where
  "try_map f [] = Inr []"
| "try_map f (x # xs) =
     (case f x of
        Inl e \<Rightarrow> Inl e
      | Inr y \<Rightarrow> (case try_map f xs of Inl e \<Rightarrow> Inl e | Inr ys \<Rightarrow> Inr (y # ys)))"

definition convert_values :: "pyval list \<Rightarrow> error + pyval list" where
  "convert_values vals =
     (case vals of
        [] \<Rightarrow> Inr vals
      | v0 # _ \<Rightarrow>
          (case v0 of
             Tensor _ \<Rightarrow> try_map cpu_numpy_tolist vals
           | NdArray _ \<Rightarrow> try_map tolist vals
           | Plain _ \<Rightarrow> Inr vals))"

fun convert_log :: "series_log \<Rightarrow> error + series_log" where
  "convert_log [] = Inr []"
| "convert_log ((key, vals) # rest) =
     (case convert_values vals of
        Inl e \<Rightarrow> Inl e
      | Inr vals' \<Rightarrow>
          (case convert_log rest of Inl e \<Rightarrow> Inl e | Inr rest' \<Rightarrow> Inr ((key, vals') # rest')))"

subsection \<open>Paths: \<^verbatim>\<open>pathlib\<close> on a POSIX system\<close>

text \<open>
  \<^verbatim>\<open>Path(s)\<close> parses the text \<open>s\<close> into a root and a list of parts: the root is empty
  for a relative path, \<open>//\<close> when \<open>s\<close> starts with exactly two separators and \<open>/\<close> when
  it starts with one or with more than two; the parts are the pieces of \<open>s\<close> between
  separators, without the empty pieces and the pieces \<open>.\<close> (so trailing separators do not
  count). \<^verbatim>\<open>a / b\<close> is \<open>b\<close> when \<open>b\<close> has a root and the parts of \<open>a\<close> followed by
  those of \<open>b\<close> otherwise. \<^verbatim>\<open>str\<close> writes the root and the parts joined by
  separators, and \<open>.\<close> for the empty path. \<^verbatim>\<open>.name\<close> is the last part (empty when
  there is none) and \<^verbatim>\<open>.suffix\<close>, with \<open>i\<close> the position of the last point of the
  name, is \<open>name[i:]\<close> when \<open>0 < i < len(name) - 1\<close> and empty otherwise (as CPython
  3.8 to 3.13 compute it).
\<close>

fun split_slash :: "string \<Rightarrow> string list" where
  "split_slash [] = [[]]"
| "split_slash (c # cs) =
     (if c = CHR ''/'' then [] # split_slash cs
      else (case split_slash cs of t # ts \<Rightarrow> (c # t) # ts | [] \<Rightarrow> [[c]]))"

fun join_slash :: "string list \<Rightarrow> string" where
  "join_slash [] = []"
| "join_slash [x] = x"
| "join_slash (x # y # zs) = x @ CHR ''/'' # join_slash (y # zs)"

record pure_path =
  path_root :: string
  path_parts :: "string list"

definition parse_path :: "string \<Rightarrow> pure_path" where
  "parse_path s =
     \<lparr>path_root =
        (let k = length (takeWhile (\<lambda>c. c = CHR ''/'') s)
         in if k = 0 then [] else if k = 2 then ''//'' else ''/''),
      path_parts = filter (\<lambda>x. x \<noteq> [] \<and> x \<noteq> ''.'') (split_slash s)\<rparr>"

definition path_join :: "pure_path \<Rightarrow> pure_path \<Rightarrow> pure_path" where
  "path_join a b =
     (if path_root b \<noteq> [] then b
      else \<lparr>path_root = path_root a, path_parts = path_parts a @ path_parts b\<rparr>)"

definition path_str :: "pure_path \<Rightarrow> string" where
  "path_str p =
     (if path_root p = [] \<and> path_parts p = [] then ''.''
      else path_root p @ join_slash (path_parts p))"

definition path_name :: "pure_path \<Rightarrow> string" where
  "path_name p = (if path_parts p = [] then [] else last (path_parts p))"

definition path_suffix :: "pure_path \<Rightarrow> string" where
  "path_suffix p =
     (let name = path_name p;
          ext = rev (takeWhile (\<lambda>c. c \<noteq> CHR ''.'') (rev name));
          upto_point = dropWhile (\<lambda>c. c \<noteq> CHR ''.'') (rev name)
      in if 1 < length upto_point \<and> ext \<noteq> [] then CHR ''.'' # ext else [])"

subsection \<open>Files, \<^verbatim>\<open>save\<close> and \<^verbatim>\<open>load\<close>\<close>

text \<open>
  The two serialisation libraries are external: a file written by \<^verbatim>\<open>json.dump\<close> is
  \<open>JsonFile d\<close>, and \<^verbatim>\<open>json.load\<close> gives \<open>d\<close> back from it; likewise \<open>PickleFile d\<close>
  for \<^verbatim>\<open>pickle\<close>. \<^verbatim>\<open>json.dump\<close> raises \<^verbatim>\<open>TypeError\<close> on a tensor or an array and
  leaves an incomplete text behind (\<open>IncompleteFile\<close>); \<^verbatim>\<open>pickle.dump\<close> serialises
  every value. Read back with the other library, a pickle is not text
  (\<^verbatim>\<open>UnicodeDecodeError\<close>, under UTF-8) and a text is not a pickle
  (\<^verbatim>\<open>UnpicklingError\<close>).

  The operating system \<open>os\<close> acts on a world \<open>'w\<close> of its own:
  \<^item> \<open>os_mkdir os p\<close> is \<^verbatim>\<open>Path(p).mkdir(parents=True, exist_ok=True)\<close>;
  \<^item> \<open>os_write os p c\<close> is opening \<open>p\<close> for writing, leaving the content \<open>c\<close> in it
    and closing it;
  \<^item> \<open>os_read os p\<close> is opening \<open>p\<close> for reading and reading it.
  Each call may fail with an error of the system (a missing directory, a file in the
  way, no permission), which the program does not catch.
\<close>

record saved_data =
  data_dt :: real
  data_state_log :: series_log
  data_rew_log :: series_log
  data_num_episodes :: int

datatype file_content = JsonFile saved_data | PickleFile saved_data | IncompleteFile

record 'w os_calls =
  os_mkdir :: "string \<Rightarrow> 'w \<Rightarrow> error option \<times> 'w"
  os_write :: "string \<Rightarrow> file_content \<Rightarrow> 'w \<Rightarrow> error option \<times> 'w"
  os_read :: "string \<Rightarrow> 'w \<Rightarrow> error + file_content"

definition is_plain :: "pyval \<Rightarrow> bool" where
  "is_plain v = (case v of Plain _ \<Rightarrow> True | _ \<Rightarrow> False)"

definition json_serializable :: "saved_data \<Rightarrow> bool" where
  "json_serializable d =
     (list_all (\<lambda>(key, vals). list_all is_plain vals) (data_state_log d) \<and>
      list_all (\<lambda>(key, vals). list_all is_plain vals) (data_rew_log d))"

definition save_path :: "string \<Rightarrow> string \<Rightarrow> string \<Rightarrow> pure_path" where
  "save_path save_dir filename format =
     path_join (parse_path save_dir) (parse_path (filename @ ''.'' @ format))"

definition unsupported :: "string \<Rightarrow> error" where
  "unsupported format = ValueError (''Unsupported format: '' @ format)"

definition write_file :: "'w os_calls \<Rightarrow> string \<Rightarrow> file_content \<Rightarrow> 'w \<Rightarrow> (error + unit) \<times> 'w" where
  "write_file os path c w =
     (case os_write os path c w of (Some e, w') \<Rightarrow> (Inl e, w') | (None, w') \<Rightarrow> (Inr (), w'))"

definition save :: "'w os_calls \<Rightarrow> logger \<Rightarrow> string \<Rightarrow> string \<Rightarrow> string \<Rightarrow> 'w \<Rightarrow> (error + unit) \<times> 'w" where
  "save os self filename format save_dir w =
     (case os_mkdir os (path_str (parse_path save_dir)) w of
        (Some e, w1) \<Rightarrow> (Inl e, w1)
      | (None, w1) \<Rightarrow>
          (let path = path_str (save_path save_dir filename format) in
           case convert_log (state_log self) of
             Inl e \<Rightarrow> (Inl e, w1)
           | Inr sl \<Rightarrow>
               (case convert_log (rew_log self) of
                  Inl e \<Rightarrow> (Inl e, w1)
                | Inr rl \<Rightarrow>
                    (let data = \<lparr>data_dt = dt self, data_state_log = sl, data_rew_log = rl,
                                 data_num_episodes = num_episodes self\<rparr>
                     in if format = ''json'' then
                          (if json_serializable data then write_file os path (JsonFile data) w1
                           else (case write_file os path IncompleteFile w1 of
                                   (Inl e, w2) \<Rightarrow> (Inl e, w2)
                                 | (Inr u, w2) \<Rightarrow> (Inl TypeError, w2)))
                        else if format = ''pkl'' then write_file os path (PickleFile data) w1
                        else (Inl (unsupported format), w1)))))"

definition restore :: "logger \<Rightarrow> saved_data \<Rightarrow> logger" where
  "restore self d =
     self\<lparr>dt := data_dt d, state_log := data_state_log d, rew_log := data_rew_log d,
          num_episodes := data_num_episodes d\<rparr>"

definition load :: "'w os_calls \<Rightarrow> logger \<Rightarrow> string \<Rightarrow> 'w \<Rightarrow> error + logger" where
  "load os self filepath w =
     (let format = drop 1 (path_suffix (parse_path filepath)) in
      if format = ''json'' then
        (case os_read os filepath w of
           Inl e \<Rightarrow> Inl e
         | Inr f \<Rightarrow>
             (case f of
                JsonFile d \<Rightarrow> Inr (restore self d)
              | PickleFile d \<Rightarrow> Inl UnicodeDecodeError
              | IncompleteFile \<Rightarrow> Inl JSONDecodeError))
      else if format = ''pkl'' then
        (case os_read os filepath w of
           Inl e \<Rightarrow> Inl e
         | Inr f \<Rightarrow> (case f of PickleFile d \<Rightarrow> Inr (restore self d) | _ \<Rightarrow> Inl UnpicklingError))
      else Inl (unsupported format))"

section \<open>Notions used to state the properties\<close>

text \<open>
  \<open>occurrences lit s\<close> is the number of positions of the text \<open>s\<close> at which the literal
  \<open>lit\<close> occurs. A log line "with one bracketed list" is a line in which the literal part
  of the data pattern occurs once.
\<close>

fun occurrences :: "string \<Rightarrow> string \<Rightarrow> nat" where
  "occurrences lit [] = (if lit = [] then 1 else 0)"
| "occurrences lit (c # cs) =
     (if take (length lit) (c # cs) = lit then 1 else 0) + occurrences lit cs"

text \<open>
  The meaning of a pattern \<open>lit(C+)closing\<close> at the start of a text \<open>s\<close>, as the
  documentation of \<^verbatim>\<open>re\<close> gives it: \<open>s\<close> starts with the literal, then a non-empty
  group \<open>g\<close> of characters of the class, then the closing character.
\<close>

definition pattern_matches :: "string \<Rightarrow> (char \<Rightarrow> bool) \<Rightarrow> char \<Rightarrow> string \<Rightarrow> string \<Rightarrow> bool" where
  "pattern_matches lit cls closing s g =
     (g \<noteq> [] \<and> list_all cls g \<and> (\<exists>rest. s = lit @ g @ closing # rest))"





text \<open>
  A small operating system, used to evaluate examples: the world is a map from path
  texts to file contents, a directory can be made unless a file has its name, every
  write succeeds and a read fails on a missing file only.
\<close>

type_synonym file_store = "string \<Rightarrow> file_content option"

definition store_os :: "file_store os_calls" where
  "store_os =
     \<lparr>os_mkdir = (\<lambda>p w. if w p = None then (None, w) else (Some FileExistsError, w)),
      os_write = (\<lambda>p c w. (None, w(p \<mapsto> c))),
      os_read = (\<lambda>p w. case w p of None \<Rightarrow> Inl FileNotFoundError | Some c \<Rightarrow> Inr c)\<rparr>"



section \<open>Properties of the log parser and the statistics\<close>

lemmas parse_defs = re_match_at_def step_pattern_def data_pattern_def DATA_TYPES_def is_digit_def
  is_data_char_def digit_val_def int_of_digits_def strip_blanks_def decimal_of_def py_float_def
  float_error_def process_line_def rectangular_def np_array_def parse_log_data_def

lemmas stats_defs = calculate_stats_def along_axis0_def column_def np_max_def np_mean_def np_std_def

subsection \<open>The end-to-end example\<close>

text \<open>
  Claim C1. For the log of the four lines \<^verbatim>\<open>Step 0:\<close>, \<^verbatim>\<open>Output Torque: [1.0, -2.0]\<close>,
  \<^verbatim>\<open>Step 1:\<close>, \<^verbatim>\<open>Output Torque: [3.0, -4.0]\<close>, extracting the kind \<open>torque\<close> returns the
  steps \<open>[0, 1]\<close> and the matrix \<open>[[1.0, -2.0], [3.0, -4.0]]\<close>, and the statistics of that
  matrix are \<open>max_abs = [3.0, 4.0]\<close>, \<open>mean = [2.0, -3.0]\<close>, \<open>mean_abs = [2.0, 3.0]\<close> and
  \<open>std = [1.0, 1.0]\<close>.
\<close>

theorem example_end_to_end:
  "parse_log_data [''Step 0:\<newline>'', ''Output Torque: [1.0, -2.0]\<newline>'',
                   ''Step 1:\<newline>'', ''Output Torque: [3.0, -4.0]\<newline>''] ''torque''
     = Inr ([0, 1], [[1, - 2], [3, - 4]])
   \<and> calculate_stats [[1, - 2], [3, - 4]]
     = Inr \<lparr>max_abs = [3, 4], mean = [2, - 3], mean_abs = [2, 3], std = [1, 1]\<rparr>"
proof
  show "parse_log_data [''Step 0:\<newline>'', ''Output Torque: [1.0, -2.0]\<newline>'',
                   ''Step 1:\<newline>'', ''Output Torque: [3.0, -4.0]\<newline>''] ''torque''
     = Inr ([0, 1], [[1, - 2], [3, - 4]])"
    by (simp add: parse_defs)
  show "calculate_stats [[1, - 2], [3, - 4]]
     = Inr \<lparr>max_abs = [3, 4], mean = [2, - 3], mean_abs = [2, 3], std = [1, 1]\<rparr>"
    by (simp add: stats_defs upt_rec)
qed

subsection \<open>The pattern functions and the meaning of the patterns\<close>

text \<open>
  When the closing character is outside the class (as \<open>:\<close> is for the digits and \<open>]\<close>
  for the data class), \<open>re_match_at\<close> returns a group exactly when the pattern matches
  with that group, and \<open>re_search\<close> returns the group of the leftmost matching position.
\<close>

lemma re_match_at_meaning:
  assumes "\<not> cls closing"
  shows "(re_match_at lit cls closing s = Some g) = pattern_matches lit cls closing s g"
proof
  assume a: "re_match_at lit cls closing s = Some g"
  then have l: "take (length lit) s = lit"
    and g: "g = takeWhile cls (drop (length lit) s)" "g \<noteq> []"
    and c: "take 1 (dropWhile cls (drop (length lit) s)) = [closing]"
    by (auto simp: re_match_at_def Let_def split: if_splits)
  from c obtain rest where r: "dropWhile cls (drop (length lit) s) = closing # rest"
    by (cases "dropWhile cls (drop (length lit) s)") auto
  have "s = take (length lit) s @ takeWhile cls (drop (length lit) s)
              @ dropWhile cls (drop (length lit) s)"
    by simp
  with l g r have "s = lit @ g @ closing # rest" by simp
  moreover from g have "list_all cls g"
    by (auto simp: list_all_iff dest: set_takeWhileD)
  ultimately show "pattern_matches lit cls closing s g"
    using g(2) by (auto simp: pattern_matches_def)
next
  assume "pattern_matches lit cls closing s g"
  then obtain rest where s: "s = lit @ g @ closing # rest" and g: "g \<noteq> []" "list_all cls g"
    by (auto simp: pattern_matches_def)
  from g(2) have tw: "takeWhile cls (g @ closing # rest) = g"
    using assms by (simp add: list_all_iff)
  from g(2) have dw: "dropWhile cls (g @ closing # rest) = closing # rest"
    using assms by (simp add: list_all_iff)
  from s g tw dw show "re_match_at lit cls closing s = Some g"
    by (simp add: re_match_at_def)
qed

lemma re_search_leftmost:
  "(re_search lit cls closing s = Some g) =
     (\<exists>i\<le>length s. re_match_at lit cls closing (drop i s) = Some g
        \<and> (\<forall>j<i. re_match_at lit cls closing (drop j s) = None))"
proof (induction s)
  case Nil
  then show ?case by auto
next
  case (Cons c cs)
  show ?case
  proof (cases "re_match_at lit cls closing (c # cs)")
    case (Some g')
    show ?thesis
    proof
      assume "re_search lit cls closing (c # cs) = Some g"
      with Some have "re_match_at lit cls closing (drop 0 (c # cs)) = Some g" by simp
      then show "\<exists>i\<le>length (c # cs). re_match_at lit cls closing (drop i (c # cs)) = Some g
        \<and> (\<forall>j<i. re_match_at lit cls closing (drop j (c # cs)) = None)"
        by (intro exI [of _ 0]) simp
    next
      assume "\<exists>i\<le>length (c # cs). re_match_at lit cls closing (drop i (c # cs)) = Some g
        \<and> (\<forall>j<i. re_match_at lit cls closing (drop j (c # cs)) = None)"
      then obtain i where i: "re_match_at lit cls closing (drop i (c # cs)) = Some g"
        "\<forall>j<i. re_match_at lit cls closing (drop j (c # cs)) = None" by blast
      have "i = 0"
      proof (rule ccontr)
        assume "i \<noteq> 0"
        then have "0 < i" by simp
        with i(2) have "re_match_at lit cls closing (drop 0 (c # cs)) = None" by blast
        with Some show False by simp
      qed
      with i(1) Some show "re_search lit cls closing (c # cs) = Some g" by simp
    qed
  next
    case None
    have "(\<exists>i\<le>length (c # cs). re_match_at lit cls closing (drop i (c # cs)) = Some g
        \<and> (\<forall>j<i. re_match_at lit cls closing (drop j (c # cs)) = None))
      = (\<exists>i\<le>length cs. re_match_at lit cls closing (drop i cs) = Some g
        \<and> (\<forall>j<i. re_match_at lit cls closing (drop j cs) = None))" (is "?L = ?R")
    proof
      assume ?L
      then obtain i where i: "i \<le> length (c # cs)"
        "re_match_at lit cls closing (drop i (c # cs)) = Some g"
        "\<forall>j<i. re_match_at lit cls closing (drop j (c # cs)) = None" by blast
      from i(2) None obtain i' where i': "i = Suc i'" by (cases i) auto
      have "\<forall>j<i'. re_match_at lit cls closing (drop j cs) = None"
      proof (intro allI impI)
        fix j assume "j < i'"
        then have "Suc j < i" using i' by simp
        with i(3) have "re_match_at lit cls closing (drop (Suc j) (c # cs)) = None" by blast
        then show "re_match_at lit cls closing (drop j cs) = None" by simp
      qed
      with i i' show ?R by (intro exI [of _ i']) simp
    next
      assume ?R
      then obtain i where i: "i \<le> length cs"
        "re_match_at lit cls closing (drop i cs) = Some g"
        "\<forall>j<i. re_match_at lit cls closing (drop j cs) = None" by blast
      have "\<forall>j<Suc i. re_match_at lit cls closing (drop j (c # cs)) = None"
      proof (intro allI impI)
        fix j assume j: "j < Suc i"
        show "re_match_at lit cls closing (drop j (c # cs)) = None"
        proof (cases j)
          case 0
          with None show ?thesis by simp
        next
          case (Suc j')
          with j i(3) show ?thesis by simp
        qed
      qed
      with i show ?L by (intro exI [of _ "Suc i"]) simp
    qed
    with None Cons.IH show ?thesis by simp
  qed
qed

lemma closing_outside_class: "\<not> is_digit (CHR '':'')" "\<not> is_data_char (CHR '']'')"
  by (simp_all add: is_digit_def is_data_char_def)

subsection \<open>Facts about the scan\<close>

lemma py_float_error: "py_float t = Inl e \<Longrightarrow> e = float_error t"
  by (auto simp: py_float_def Let_def split: list.splits if_splits option.splits)

lemma floats_error: "floats ts = Inl e \<Longrightarrow> \<exists>t\<in>set ts. py_float t = Inl e"
  by (induction ts) (auto split: sum.splits)

lemma floats_fail_iff: "(\<exists>e. floats ts = Inl e) = (\<exists>t\<in>set ts. \<exists>e. py_float t = Inl e)"
  by (induction ts) (auto split: sum.splits)

lemma process_line_error:
  "process_line spec st l = Inl e \<Longrightarrow> \<exists>msg. e = ValueError msg"
  by (auto simp: process_line_def Let_def float_error_def
           split: prod.splits option.splits sum.splits dest!: floats_error py_float_error)

lemma scan_lines_error:
  "scan_lines spec st ls = Inl e \<Longrightarrow> \<exists>msg. e = ValueError msg"
  by (induction ls arbitrary: st) (auto split: sum.splits dest: process_line_error)

lemma process_line_lengths:
  "process_line spec (cur, steps, rows) l = Inr (cur', steps', rows') \<Longrightarrow>
   length steps = length rows \<Longrightarrow> length steps' = length rows'"
  by (auto simp: process_line_def Let_def split: option.splits sum.splits)

lemma scan_lines_lengths:
  "scan_lines spec (cur, steps, rows) ls = Inr (cur', steps', rows') \<Longrightarrow>
   length steps = length rows \<Longrightarrow> length steps' = length rows'"
proof (induction ls arbitrary: cur steps rows)
  case Nil
  then show ?case by simp
next
  case (Cons l ls)
  from Cons.prems(1) obtain c1 s1 r1 where
    p: "process_line spec (cur, steps, rows) l = Inr (c1, s1, r1)" and
    s: "scan_lines spec (c1, s1, r1) ls = Inr (cur', steps', rows')"
    by (auto split: sum.splits)
  from process_line_lengths [OF p Cons.prems(2)] Cons.IH [OF s] show ?case by simp
qed

lemma scan_lines_append:
  "scan_lines spec st (xs @ ys) =
     (case scan_lines spec st xs of Inl e \<Rightarrow> Inl e | Inr st' \<Rightarrow> scan_lines spec st' ys)"
  by (induction xs arbitrary: st) (auto split: sum.splits)

lemma process_line_step_known:
  "process_line spec (cur, steps, rows) l = Inr (cur', steps', rows') \<Longrightarrow>
   cur \<noteq> None \<or> step_pattern l \<noteq> None \<Longrightarrow> cur' \<noteq> None"
  by (auto simp: process_line_def Let_def split: option.splits sum.splits)

lemma scan_lines_step_known:
  "scan_lines spec (cur, steps, rows) ls = Inr (cur', steps', rows') \<Longrightarrow>
   cur \<noteq> None \<or> (\<exists>l\<in>set ls. step_pattern l \<noteq> None) \<Longrightarrow> cur' \<noteq> None"
proof (induction ls arbitrary: cur steps rows)
  case Nil
  then show ?case by simp
next
  case (Cons l ls)
  from Cons.prems(1) obtain c1 s1 r1 where
    p: "process_line spec (cur, steps, rows) l = Inr (c1, s1, r1)" and
    s: "scan_lines spec (c1, s1, r1) ls = Inr (cur', steps', rows')"
    by (auto split: sum.splits)
  show ?case
  proof (cases "cur \<noteq> None \<or> step_pattern l \<noteq> None")
    case True
    with process_line_step_known [OF p] have "c1 \<noteq> None" by blast
    with Cons.IH [OF s] show ?thesis by blast
  next
    case False
    with Cons.prems(2) have "\<exists>l\<in>set ls. step_pattern l \<noteq> None" by auto
    with Cons.IH [OF s] show ?thesis by blast
  qed
qed

lemma rectangular_rows:
  "rectangular m \<Longrightarrow> r \<in> set m \<Longrightarrow> r' \<in> set m \<Longrightarrow> length r = length r'"
  by (simp add: rectangular_def list_all_iff)

lemma not_rectangular:
  "r \<in> set m \<Longrightarrow> r' \<in> set m \<Longrightarrow> length r \<noteq> length r' \<Longrightarrow> \<not> rectangular m"
  using rectangular_rows by blast

lemma process_line_returns:
  assumes "\<forall>g. data_pattern spec l = Some g \<longrightarrow>
             (\<exists>vals. floats (split_comma_space g) = Inr vals \<and> length vals = n)"
    and "\<forall>r\<in>set rows. length r = n"
  shows "\<exists>cur' steps' rows'. process_line spec (cur, steps, rows) l = Inr (cur', steps', rows')
           \<and> (\<forall>r\<in>set rows'. length r = n)"
  using assms
  by (cases "data_pattern spec l") (auto simp: process_line_def Let_def split: option.splits)

lemma scan_lines_returns:
  assumes "\<forall>l\<in>set ls. \<forall>g. data_pattern spec l = Some g \<longrightarrow>
             (\<exists>vals. floats (split_comma_space g) = Inr vals \<and> length vals = n)"
    and "\<forall>r\<in>set rows. length r = n"
  shows "\<exists>cur' steps' rows'. scan_lines spec (cur, steps, rows) ls = Inr (cur', steps', rows')
           \<and> (\<forall>r\<in>set rows'. length r = n)"
  using assms
proof (induction ls arbitrary: cur steps rows)
  case Nil
  then show ?case by simp
next
  case (Cons l ls)
  from Cons.prems have "\<forall>g. data_pattern spec l = Some g \<longrightarrow>
             (\<exists>vals. floats (split_comma_space g) = Inr vals \<and> length vals = n)"
    by simp
  from process_line_returns [OF this Cons.prems(2), of cur steps]
  obtain c1 s1 r1 where p: "process_line spec (cur, steps, rows) l = Inr (c1, s1, r1)"
    and r: "\<forall>r\<in>set r1. length r = n"
    by blast
  from Cons.prems(1) have "\<forall>l\<in>set ls. \<forall>g. data_pattern spec l = Some g \<longrightarrow>
             (\<exists>vals. floats (split_comma_space g) = Inr vals \<and> length vals = n)"
    by simp
  from Cons.IH [OF this r, of c1 s1] p show ?case by simp
qed

lemma uniform_rectangular: "\<forall>r\<in>set rows. length r = n \<Longrightarrow> rectangular rows"
  by (cases rows) (auto simp: rectangular_def list_all_iff)

subsection \<open>Shape of the result\<close>

text \<open>
  Claim C2. Whatever the lines of the log are, a result \<open>(steps, matrix)\<close> returned by
  \<open>parse_log_data\<close> has as many steps as rows and all its rows have one length; when
  the rows collected from the matched data lines have differing lengths, the extraction
  fails with \<^verbatim>\<open>ValueError\<close> (raised by the array construction) instead of returning a
  coerced result; and a result is returned for every log in which the list of each data
  line holds one and the same number of well-formed values.
\<close>

theorem parse_log_data_shape:
  "(parse_log_data ls k = Inr (steps, m) \<longrightarrow>
      length steps = length m \<and> (\<forall>r\<in>set m. \<forall>r'\<in>set m. length r = length r'))
   \<and> (DATA_TYPES k = Some spec \<and> scan_lines spec (None, [], []) ls = Inr (cur, steps', rows)
       \<and> (\<exists>r\<in>set rows. \<exists>r'\<in>set rows. length r \<noteq> length r')
      \<longrightarrow> (\<exists>msg. parse_log_data ls k = Inl (ValueError msg)))
   \<and> (DATA_TYPES k = Some spec
       \<and> (\<forall>l\<in>set ls. \<forall>g. data_pattern spec l = Some g \<longrightarrow>
             (\<exists>vals. floats (split_comma_space g) = Inr vals \<and> length vals = n))
      \<longrightarrow> (\<exists>steps m. parse_log_data ls k = Inr (steps, m)))"
proof (intro conjI impI)
  assume a: "parse_log_data ls k = Inr (steps, m)"
  then obtain spec0 cur0 where
    s: "scan_lines spec0 (None, [], []) ls = Inr (cur0, steps, m)" and r: "rectangular m"
    by (auto simp: parse_log_data_def np_array_def split: option.splits sum.splits if_splits)
  from scan_lines_lengths [OF s] show "length steps = length m" by simp
  from r show "\<forall>r\<in>set m. \<forall>r'\<in>set m. length r = length r'"
    using rectangular_rows by blast
next
  assume "DATA_TYPES k = Some spec \<and> scan_lines spec (None, [], []) ls = Inr (cur, steps', rows)
       \<and> (\<exists>r\<in>set rows. \<exists>r'\<in>set rows. length r \<noteq> length r')"
  moreover from this have "\<not> rectangular rows"
    using not_rectangular by blast
  ultimately show "\<exists>msg. parse_log_data ls k = Inl (ValueError msg)"
    by (simp add: parse_log_data_def np_array_def)
next
  assume a: "DATA_TYPES k = Some spec
       \<and> (\<forall>l\<in>set ls. \<forall>g. data_pattern spec l = Some g \<longrightarrow>
             (\<exists>vals. floats (split_comma_space g) = Inr vals \<and> length vals = n))"
  then have "\<forall>l\<in>set ls. \<forall>g. data_pattern spec l = Some g \<longrightarrow>
             (\<exists>vals. floats (split_comma_space g) = Inr vals \<and> length vals = n)"
    by simp
  from scan_lines_returns [OF this, of "[]" None "[]"]
  obtain c1 s1 r1 where s: "scan_lines spec (None, [], []) ls = Inr (c1, s1, r1)"
    and r: "\<forall>r\<in>set r1. length r = n"
    by auto
  from r have "rectangular r1" by (rule uniform_rectangular)
  with a s show "\<exists>steps m. parse_log_data ls k = Inr (steps, m)"
    by (simp add: parse_log_data_def np_array_def)
qed

theorem parse_log_data_shape_witness:
  "parse_log_data [''Step 3:'', ''Output Torque: [1.0, 2.0]'', ''Output Torque: [-0.5, 4]''] ''torque''
     = Inr ([3, 3], [[1, 2], [- 0.5, 4]])
   \<and> length [3::nat, 3] = length [[1, 2], [- 0.5, 4::real]]
   \<and> DATA_TYPES ''torque'' = Some \<lparr>pattern = ''Output Torque: ['', label = ''Torque (Nm)''\<rparr>
   \<and> data_pattern \<lparr>pattern = ''Output Torque: ['', label = ''Torque (Nm)''\<rparr> ''Step 3:'' = None
   \<and> data_pattern \<lparr>pattern = ''Output Torque: ['', label = ''Torque (Nm)''\<rparr>
         ''Output Torque: [1.0, 2.0]'' = Some ''1.0, 2.0''
   \<and> floats (split_comma_space ''1.0, 2.0'') = Inr [1, 2]
   \<and> data_pattern \<lparr>pattern = ''Output Torque: ['', label = ''Torque (Nm)''\<rparr>
         ''Output Torque: [-0.5, 4]'' = Some ''-0.5, 4''
   \<and> floats (split_comma_space ''-0.5, 4'') = Inr [- 0.5, 4]
   \<and> scan_lines \<lparr>pattern = ''Output Torque: ['', label = ''Torque (Nm)''\<rparr> (None, [], [])
        [''Step 3:'', ''Output Torque: [1.0, 2.0]'', ''Output Torque: [7.5]'']
     = Inr (Some 3, [3, 3], [[1, 2], [7.5]])
   \<and> (\<exists>msg. parse_log_data [''Step 3:'', ''Output Torque: [1.0, 2.0]'', ''Output Torque: [7.5]''] ''torque''
        = Inl (ValueError msg))"
proof -
  let ?spec = "\<lparr>pattern = ''Output Torque: ['', label = ''Torque (Nm)''\<rparr>"
  let ?good = "[''Step 3:'', ''Output Torque: [1.0, 2.0]'', ''Output Torque: [-0.5, 4]'']"
  let ?ragged = "[''Step 3:'', ''Output Torque: [1.0, 2.0]'', ''Output Torque: [7.5]'']"
  have a: "parse_log_data ?good ''torque'' = Inr ([3, 3], [[1, 2], [- 0.5, 4]])"
    by (simp add: parse_defs)
  have b: "DATA_TYPES ''torque'' = Some ?spec"
    by (simp add: DATA_TYPES_def)
  have c: "scan_lines ?spec (None, [], []) ?ragged = Inr (Some 3, [3, 3], [[1, 2], [7.5]])"
    by (simp add: parse_defs)
  have d: "\<exists>r\<in>set [[1, 2], [7.5::real]]. \<exists>r'\<in>set [[1, 2], [7.5::real]]. length r \<noteq> length r'"
    by auto
  have g1: "data_pattern ?spec ''Step 3:'' = None"
    by (simp add: parse_defs)
  have g2: "data_pattern ?spec ''Output Torque: [1.0, 2.0]'' = Some ''1.0, 2.0''"
    by (simp add: parse_defs)
  have g3: "data_pattern ?spec ''Output Torque: [-0.5, 4]'' = Some ''-0.5, 4''"
    by (simp add: parse_defs)
  have g4: "floats (split_comma_space ''1.0, 2.0'') = Inr [1, 2]"
    by (simp add: parse_defs)
  have g5: "floats (split_comma_space ''-0.5, 4'') = Inr [- 0.5, 4]"
    by (simp add: parse_defs)
  have g: "\<forall>l\<in>set ?good. \<forall>g. data_pattern ?spec l = Some g \<longrightarrow>
             (\<exists>vals. floats (split_comma_space g) = Inr vals \<and> length vals = 2)"
    using g1 g2 g3 g4 g5 by simp
  from parse_log_data_shape [of ?ragged "''torque''" "[]" "[]" ?spec "Some 3" "[3, 3]" "[[1, 2], [7.5]]"] b c d
  have e: "\<exists>msg. parse_log_data ?ragged ''torque'' = Inl (ValueError msg)"
    by blast
  from parse_log_data_shape [of ?good "''torque''" "[3, 3]" "[[1, 2], [- 0.5, 4]]" ?spec _ _ _ 2] a b g
  have f: "length [3::nat, 3] = length [[1, 2], [- 0.5, 4::real]]"
    and f': "\<exists>steps m. parse_log_data ?good ''torque'' = Inr (steps, m)"
    by blast+
  from a b c e f g1 g2 g3 g4 g5 show ?thesis by blast
qed

subsection \<open>Statistics of a single row\<close>

lemma along_axis0_single_row: "along_axis0 f [r] = map (\<lambda>x. f [x]) r"
proof -
  have "map (\<lambda>c. f [r ! c]) [0..<length r] = map (\<lambda>x. f [x]) (map ((!) r) [0..<length r])"
    by (simp add: comp_def)
  then show ?thesis
    by (simp add: along_axis0_def column_def map_nth)
qed

lemma calculate_stats_single_row:
  "calculate_stats [r] =
     Inr \<lparr>max_abs = map abs r, mean = r, mean_abs = map abs r, std = map (\<lambda>x. 0) r\<rparr>"
  by (simp add: calculate_stats_def along_axis0_single_row np_max_def np_mean_def np_std_def)

lemma map_abs_eq_iff: "(map abs r = r) = (\<forall>x\<in>set r. 0 \<le> (x::real))"
  by (induction r) auto

lemma std_population:
  assumes "m \<noteq> []" "c < length (hd m)" "calculate_stats m = Inr s"
  shows "std s ! c = sqrt ((\<Sum>x\<leftarrow>column m c. (x - mean s ! c)\<^sup>2) / real (length m))"
  using assms
  by (auto simp: calculate_stats_def along_axis0_def np_std_def np_mean_def column_def comp_def)

text \<open>
  Claim C7, as stated, asks \<open>mean = mean_abs = |value|\<close> for a single row whose entries all
  share one sign. That fails when the shared sign is negative: the mean of a single row
  is the row itself, not its absolute value.
\<close>

theorem single_row_negative_counterexample:
  "calculate_stats [[- 2, - 3]]
     = Inr \<lparr>max_abs = [2, 3], mean = [- 2, - 3], mean_abs = [2, 3], std = [0, 0]\<rparr>
   \<and> mean \<lparr>max_abs = [2, 3], mean = [- 2, - 3], mean_abs = [2, 3], std = [0, 0]\<rparr>
     \<noteq> mean_abs \<lparr>max_abs = [2, 3], mean = [- 2, - 3], mean_abs = [2, 3], std = [0, 0::real]\<rparr>"
  by (simp add: calculate_stats_single_row)

text \<open>
  Claim C7, amended. For every single-row matrix \<open>calculate_stats\<close> returns a result with
  \<open>std = 0\<close> in every channel, \<open>mean\<close> equal to the row and \<open>mean_abs = max_abs\<close> equal to
  the absolute values of the row; \<open>mean = mean_abs\<close> holds exactly when no entry of the row
  is negative. For every matrix with at least one row, \<open>std\<close> of a channel is the
  population standard deviation: the squared deviations from the mean are divided by the
  number \<open>N\<close> of rows, not by \<open>N - 1\<close>.
\<close>

theorem single_row_stats:
  "(calculate_stats [r] = Inr s \<longrightarrow>
      std s = map (\<lambda>x. 0) r \<and> mean s = r \<and> mean_abs s = map abs r \<and> max_abs s = map abs r
      \<and> (mean s = mean_abs s \<longleftrightarrow> (\<forall>x\<in>set r. 0 \<le> x)))
   \<and> (\<exists>s. calculate_stats [r] = Inr s)
   \<and> (m \<noteq> [] \<and> c < length (hd m) \<and> calculate_stats m = Inr s' \<longrightarrow>
        std s' ! c = sqrt ((\<Sum>x\<leftarrow>column m c. (x - mean s' ! c)\<^sup>2) / real (length m)))"
proof (intro conjI impI)
  assume a: "calculate_stats [r] = Inr s"
  then have s: "s = \<lparr>max_abs = map abs r, mean = r, mean_abs = map abs r, std = map (\<lambda>x. 0) r\<rparr>"
    by (simp add: calculate_stats_single_row)
  show "std s = map (\<lambda>x. 0) r" "mean s = r" "mean_abs s = map abs r" "max_abs s = map abs r"
    by (simp_all add: s)
  show "(mean s = mean_abs s) = (\<forall>x\<in>set r. 0 \<le> x)"
    using map_abs_eq_iff [of r] by (auto simp: s)
next
  show "\<exists>s. calculate_stats [r] = Inr s"
    by (simp add: calculate_stats_single_row)
next
  assume "m \<noteq> [] \<and> c < length (hd m) \<and> calculate_stats m = Inr s'"
  then show "std s' ! c = sqrt ((\<Sum>x\<leftarrow>column m c. (x - mean s' ! c)\<^sup>2) / real (length m))"
    using std_population by blast
qed

theorem single_row_stats_witness:
  "calculate_stats [[2, 3]] = Inr \<lparr>max_abs = [2, 3], mean = [2, 3], mean_abs = [2, 3], std = [0, 0]\<rparr>
   \<and> calculate_stats [[1], [3]] = Inr \<lparr>max_abs = [3], mean = [2], mean_abs = [2], std = [1]\<rparr>
   \<and> std \<lparr>max_abs = [3], mean = [2], mean_abs = [2], std = [1::real]\<rparr> ! 0
      = sqrt ((\<Sum>x\<leftarrow>column [[1], [3]] 0.
                 (x - mean \<lparr>max_abs = [3], mean = [2], mean_abs = [2], std = [1::real]\<rparr> ! 0)\<^sup>2)
              / real (length [[1::real], [3]]))"
proof -
  have a: "calculate_stats [[2, 3]]
             = Inr \<lparr>max_abs = [2, 3], mean = [2, 3], mean_abs = [2, 3], std = [0, 0]\<rparr>"
    by (simp add: calculate_stats_single_row)
  have b: "calculate_stats [[1], [3]] = Inr \<lparr>max_abs = [3], mean = [2], mean_abs = [2], std = [1]\<rparr>"
    by (simp add: stats_defs)
  from single_row_stats [of "[2, 3]" "\<lparr>max_abs = [2, 3], mean = [2, 3], mean_abs = [2, 3], std = [0, 0]\<rparr>"
        "[[1], [3]]" 0 "\<lparr>max_abs = [3], mean = [2], mean_abs = [2], std = [1]\<rparr>"] a b
  show ?thesis by simp
qed

subsection \<open>Malformed tokens\<close>

text \<open>
  Claim C5, as stated, asks a parse failure for every log that contains a data line with
  a malformed token. That fails for a data line that stands before every step
  declaration: its values are never converted, the line is skipped and a result is
  returned.
\<close>

theorem malformed_token_skipped_counterexample:
  "data_pattern \<lparr>pattern = ''Output Torque: ['', label = ''Torque (Nm)''\<rparr>
       ''Output Torque: [1..2]\<newline>''
     = Some ''1..2''
   \<and> py_float ''1..2'' = Inl (float_error ''1..2'')
   \<and> parse_log_data [''Output Torque: [1..2]\<newline>'', ''Step 0:\<newline>'',
                      ''Output Torque: [1.0]\<newline>''] ''torque''
     = Inr ([0], [[1]])"
  by (simp add: parse_defs)

text \<open>
  Claim C5, amended. For every log that contains a data line whose captured list holds a
  malformed token, and in which a step declaration stands on that line or on an earlier
  one, \<open>parse_log_data\<close> raises \<^verbatim>\<open>ValueError\<close>: no \<open>(steps, matrix)\<close> is returned,
  whatever the lines before and after are.
\<close>

theorem malformed_token_aborts:
  assumes "DATA_TYPES k = Some spec"
    and "data_pattern spec l = Some g"
    and "\<exists>t\<in>set (split_comma_space g). \<exists>e. py_float t = Inl e"
    and "\<exists>l'\<in>set (pre @ [l]). step_pattern l' \<noteq> None"
  shows "\<exists>msg. parse_log_data (pre @ l # post) k = Inl (ValueError msg)"
proof -
  from assms(3) obtain e where fl: "floats (split_comma_space g) = Inl e"
    using floats_fail_iff by blast
  have "\<exists>e'. scan_lines spec (None, [], []) (pre @ l # post) = Inl e'"
  proof (cases "scan_lines spec (None, [], []) pre")
    case (Inl e')
    then show ?thesis by (simp add: scan_lines_append)
  next
    case (Inr st)
    obtain cur steps rows where st: "st = (cur, steps, rows)"
      by (cases st) auto
    have known: "cur \<noteq> None \<or> step_pattern l \<noteq> None"
    proof (cases "step_pattern l")
      case None
      with assms(4) have "\<exists>l'\<in>set pre. step_pattern l' \<noteq> None" by auto
      with scan_lines_step_known [of spec None "[]" "[]" pre cur steps rows] Inr st
      show ?thesis by simp
    next
      case (Some ds)
      then show ?thesis by simp
    qed
    have "process_line spec (cur, steps, rows) l = Inl e"
      using known assms(2) fl
      by (auto simp: process_line_def Let_def split: option.splits)
    with Inr st show ?thesis by (simp add: scan_lines_append)
  qed
  then obtain e' where e': "scan_lines spec (None, [], []) (pre @ l # post) = Inl e'" ..
  from scan_lines_error [OF e'] obtain msg where "e' = ValueError msg" ..
  with e' assms(1) show ?thesis by (simp add: parse_log_data_def)
qed

theorem malformed_token_aborts_witness:
  "DATA_TYPES ''torque'' = Some \<lparr>pattern = ''Output Torque: ['', label = ''Torque (Nm)''\<rparr>
   \<and> data_pattern \<lparr>pattern = ''Output Torque: ['', label = ''Torque (Nm)''\<rparr>
         ''Output Torque: [1.0, 1..2]\<newline>''
       = Some ''1.0, 1..2''
   \<and> split_comma_space ''1.0, 1..2'' = [''1.0'', ''1..2'']
   \<and> py_float ''1..2'' = Inl (float_error ''1..2'')
   \<and> step_pattern ''Step 0:\<newline>'' = Some ''0''
   \<and> (\<exists>msg. parse_log_data ([''Step 0:\<newline>'', ''Output Torque: [1.0]\<newline>'']
                              @ ''Output Torque: [1.0, 1..2]\<newline>''
                              # [''Output Torque: [2.0]\<newline>'']) ''torque''
        = Inl (ValueError msg))"
proof -
  let ?spec = "\<lparr>pattern = ''Output Torque: ['', label = ''Torque (Nm)''\<rparr>"
  have a: "DATA_TYPES ''torque'' = Some ?spec"
    by (simp add: DATA_TYPES_def)
  have b: "data_pattern ?spec ''Output Torque: [1.0, 1..2]\<newline>'' = Some ''1.0, 1..2''"
    by (simp add: parse_defs)
  have c: "split_comma_space ''1.0, 1..2'' = [''1.0'', ''1..2'']"
    by simp
  have d: "py_float ''1..2'' = Inl (float_error ''1..2'')"
    by (simp add: parse_defs)
  have e: "step_pattern ''Step 0:\<newline>'' = Some ''0''"
    by (simp add: parse_defs)
  have f: "\<exists>t\<in>set (split_comma_space ''1.0, 1..2''). \<exists>e. py_float t = Inl e"
    using c d by simp
  have g: "\<exists>l'\<in>set ([''Step 0:\<newline>'', ''Output Torque: [1.0]\<newline>'']
                     @ [''Output Torque: [1.0, 1..2]\<newline>'']). step_pattern l' \<noteq> None"
    using e by simp
  from malformed_token_aborts [OF a b f g, of "[''Output Torque: [2.0]\<newline>'']"] a b c d e
  show ?thesis by blast
qed

subsection \<open>Order of the two rules\<close>



subsection \<open>Lists that the data pattern cannot capture\<close>

lemma re_search_no_occurrence:
  "occurrences lit s = 0 \<Longrightarrow> re_search lit cls closing s = None"
  by (induction s) (auto simp: re_match_at_def split: if_splits)

lemma occurrences_append_ge: "occurrences lit s \<le> occurrences lit (pre @ s)"
  by (induction pre) (auto intro: le_trans)

lemma occurrences_self: "lit \<noteq> [] \<Longrightarrow> 1 \<le> occurrences lit (lit @ rest)"
  by (cases lit) auto

lemma re_match_at_bad_body:
  assumes "c \<in> set body" "\<not> cls c" "closing \<notin> set body"
  shows "re_match_at lit cls closing (lit @ body @ closing # post) = None"
proof -
  have tw: "takeWhile cls (body @ closing # post) = takeWhile cls body"
    using assms(1,2) by (rule takeWhile_append1)
  have dw: "dropWhile cls (body @ closing # post) = dropWhile cls body @ closing # post"
    using assms(1,2) by (rule dropWhile_append1)
  have ne: "dropWhile cls body \<noteq> []"
    using assms(1,2) by auto
  then obtain b bs where b: "dropWhile cls body = b # bs"
    by (cases "dropWhile cls body") auto
  then have "b \<in> set body"
    by (metis list.set_intros(1) set_dropWhileD)
  with assms(3) have "b \<noteq> closing" by auto
  with tw dw b show ?thesis
    by (simp add: re_match_at_def)
qed

lemma re_search_single_occurrence:
  "lit \<noteq> [] \<Longrightarrow> occurrences lit (pre @ lit @ rest) = 1 \<Longrightarrow>
   re_match_at lit cls closing (lit @ rest) = None \<Longrightarrow>
   re_search lit cls closing (pre @ lit @ rest) = None"
proof (induction pre)
  case Nil
  from Nil.prems(1) obtain c cs where l: "lit @ rest = c # cs"
    by (cases lit) auto
  with Nil.prems(2) have "take (length lit) (c # cs) = lit"
    by (metis append_eq_conv_conj)
  with Nil.prems(2) l have "occurrences lit cs = 0" by simp
  then have "re_search lit cls closing cs = None"
    by (rule re_search_no_occurrence)
  with Nil.prems(3) l show ?case by simp
next
  case (Cons p ps)
  have "1 \<le> occurrences lit (ps @ lit @ rest)"
    using occurrences_self [OF Cons.prems(1), of rest] occurrences_append_ge [of lit "lit @ rest" ps]
    by simp
  with Cons.prems(2) have one: "occurrences lit (ps @ lit @ rest) = 1"
    and no: "take (length lit) (p # ps @ lit @ rest) \<noteq> lit"
    by (auto split: if_splits)
  from no have "re_match_at lit cls closing (p # ps @ lit @ rest) = None"
    by (simp add: re_match_at_def)
  with Cons.IH [OF Cons.prems(1) one Cons.prems(3)] show ?case by simp
qed

text \<open>
  Claim C10, as stated, is about every log line whose bracketed list holds a character
  outside the class. It fails for a line that holds a second, well-formed list: the
  search goes on after the first list, matches the second one, and a record is emitted.
\<close>

theorem second_list_counterexample:
  "CHR ''e'' \<in> set ''1e-3'' \<and> \<not> is_data_char (CHR ''e'')
   \<and> data_pattern \<lparr>pattern = ''Output Torque: ['', label = ''Torque (Nm)''\<rparr>
        ''Output Torque: [1e-3] Output Torque: [2.5]\<newline>'' = Some ''2.5''
   \<and> parse_log_data [''Step 2:\<newline>'', ''Output Torque: [1e-3] Output Torque: [2.5]\<newline>'']
        ''torque''
     = Inr ([2], [[2.5]])"
  by (simp add: parse_defs)

text \<open>
  Claim C10, amended. Take a log line in which the literal part of the data pattern
  occurs once, followed by the list body and the closing bracket. When the body holds a
  character outside the class of digits, \<open>-\<close>, \<open>.\<close>, \<open>,\<close> and space (as the \<open>e\<close> of
  \<open>1e-3\<close>), the data pattern does not match the line, so the line emits no record and
  raises no failure: the lists of steps and rows stay as they are.
\<close>

theorem unmatched_list_is_skipped:
  assumes "DATA_TYPES k = Some spec"
    and "line = pre @ pattern spec @ body @ CHR '']'' # post"
    and "\<exists>c\<in>set body. \<not> is_data_char c"
    and "CHR '']'' \<notin> set body"
    and "occurrences (pattern spec) line = 1"
  shows "data_pattern spec line = None
         \<and> (\<exists>cur'. process_line spec (cur, steps, rows) line = Inr (cur', steps, rows))"
proof -
  from assms(1) have ne: "pattern spec \<noteq> []"
    by (auto simp: DATA_TYPES_def split: if_splits)
  from assms(3) obtain c where c: "c \<in> set body" "\<not> is_data_char c" by blast
  have "re_match_at (pattern spec) is_data_char (CHR '']'')
          (pattern spec @ body @ CHR '']'' # post) = None"
    using c assms(4) by (rule re_match_at_bad_body)
  with re_search_single_occurrence [OF ne, of pre "body @ CHR '']'' # post" is_data_char "CHR '']''"]
       assms(2,5)
  have "data_pattern spec line = None"
    by (simp add: data_pattern_def)
  then show ?thesis
    by (simp add: process_line_def)
qed

theorem unmatched_list_is_skipped_witness:
  "DATA_TYPES ''torque'' = Some \<lparr>pattern = ''Output Torque: ['', label = ''Torque (Nm)''\<rparr>
   \<and> ''Output Torque: [1e-3, 2.0]\<newline>''
       = [] @ ''Output Torque: ['' @ ''1e-3, 2.0'' @ CHR '']'' # ''\<newline>''
   \<and> CHR ''e'' \<in> set ''1e-3, 2.0'' \<and> \<not> is_data_char (CHR ''e'')
   \<and> CHR '']'' \<notin> set ''1e-3, 2.0''
   \<and> occurrences ''Output Torque: ['' ''Output Torque: [1e-3, 2.0]\<newline>'' = 1
   \<and> data_pattern \<lparr>pattern = ''Output Torque: ['', label = ''Torque (Nm)''\<rparr>
        ''Output Torque: [1e-3, 2.0]\<newline>'' = None
   \<and> process_line \<lparr>pattern = ''Output Torque: ['', label = ''Torque (Nm)''\<rparr> (Some 4, [4], [[0, 0]])
        ''Output Torque: [1e-3, 2.0]\<newline>'' = Inr (Some 4, [4], [[0, 0]])
   \<and> parse_log_data [''Step 4:\<newline>'', ''Output Torque: [1e-3, 2.0]\<newline>''] ''torque''
       = Inr ([], [])"
proof -
  let ?spec = "\<lparr>pattern = ''Output Torque: ['', label = ''Torque (Nm)''\<rparr>"
  have a: "DATA_TYPES ''torque'' = Some ?spec"
    by (simp add: DATA_TYPES_def)
  have b: "''Output Torque: [1e-3, 2.0]\<newline>''
             = [] @ pattern ?spec @ ''1e-3, 2.0'' @ CHR '']'' # ''\<newline>''"
    by simp
  have c: "\<exists>c\<in>set ''1e-3, 2.0''. \<not> is_data_char c"
    by (simp add: is_data_char_def is_digit_def)
  have d: "CHR '']'' \<notin> set ''1e-3, 2.0''"
    by simp
  have e: "occurrences (pattern ?spec) ''Output Torque: [1e-3, 2.0]\<newline>'' = 1"
    by simp
  from unmatched_list_is_skipped [OF a b c d e, of "Some 4" "[4]" "[[0, 0]]"]
  have f: "data_pattern ?spec ''Output Torque: [1e-3, 2.0]\<newline>'' = None"
    and g: "\<exists>cur'. process_line ?spec (Some 4, [4], [[0, 0]]) ''Output Torque: [1e-3, 2.0]\<newline>''
              = Inr (cur', [4], [[0, 0]])"
    by blast+
  have h: "process_line ?spec (Some 4, [4], [[0, 0]]) ''Output Torque: [1e-3, 2.0]\<newline>''
             = Inr (Some 4, [4], [[0, 0]])"
    using f by (simp add: process_line_def step_pattern_def re_match_at_def)
  have i: "parse_log_data [''Step 4:\<newline>'', ''Output Torque: [1e-3, 2.0]\<newline>''] ''torque''
             = Inr ([], [])"
    by (simp add: parse_defs)
  have c': "CHR ''e'' \<in> set ''1e-3, 2.0'' \<and> \<not> is_data_char (CHR ''e'')"
    by (simp add: is_data_char_def is_digit_def)
  from a b c' d e f h i show ?thesis by simp
qed

section \<open>Properties of the logger\<close>

lemmas save_defs = save_def write_file_def store_os_def save_path_def parse_path_def path_join_def
  path_str_def convert_values_def cpu_numpy_tolist_def tolist_def json_serializable_def is_plain_def


subsection \<open>Rewards and reset\<close>







text \<open>
  Claim C9. For every logger, \<open>reset\<close> empties \<open>state_log\<close> and \<open>rew_log\<close> and leaves
  \<open>num_episodes\<close> and \<open>dt\<close> as they were; a \<open>log_state\<close> after \<open>reset\<close> gives a state log
  that holds the newly recorded series and nothing else.
\<close>

theorem reset_clears_logs:
  "state_log (reset self) = [] \<and> rew_log (reset self) = []
   \<and> num_episodes (reset self) = num_episodes self \<and> dt (reset self) = dt self
   \<and> state_log (log_state (reset self) key v) = [(key, [v])]
   \<and> rew_log (log_state (reset self) key v) = []"
  by (simp add: reset_def log_state_def)

subsection \<open>Facts about paths\<close>















lemma takeWhile_append_stop: "\<not> P y \<Longrightarrow> takeWhile P (xs @ y # ys) = takeWhile P xs"
  by (induction xs) auto










subsection \<open>Saving and loading\<close>













text \<open>
  A series of mixed kinds is outside the theorem above. \<open>convert_log\<close> looks at the
  first value of a series only, so a tensor behind a plain number is left as it is, and
  writing the log as JSON raises \<^verbatim>\<open>TypeError\<close>.
\<close>

lemma mixed_series_not_saved:
  "save store_os
        \<lparr>state_log = [(''dof_pos'', [Plain (Num 1), Tensor (Num 2)])], rew_log = [],
         dt = 0.5, num_episodes = 0\<rparr> ''run'' ''json'' ''logs'' Map.empty
     = (Inl TypeError, [''logs/run.json'' \<mapsto> IncompleteFile])"
  by (simp add: save_defs)

text \<open>
  Claim C8, amended. \<open>load\<close> on a path whose suffix is neither \<open>.json\<close> nor \<open>.pkl\<close> raises
  \<^verbatim>\<open>ValueError("Unsupported format: ...")\<close> before any file is opened. \<open>save\<close> with a
  format other than \<open>json\<close> and \<open>pkl\<close> always raises and writes no file (it leaves the
  world as making the directory left it); the error is
  \<^verbatim>\<open>ValueError("Unsupported format: ...")\<close> whenever making the directory and
  converting the two logs, which both come before the format is looked at, succeed.
\<close>

theorem unsupported_format:
  "(format \<noteq> ''json'' \<and> format \<noteq> ''pkl'' \<longrightarrow>
      snd (save os self filename format save_dir w)
        = snd (os_mkdir os (path_str (parse_path save_dir)) w)
      \<and> (\<exists>e. fst (save os self filename format save_dir w) = Inl e)
      \<and> (fst (os_mkdir os (path_str (parse_path save_dir)) w) = None
          \<and> (\<exists>sl rl. convert_log (state_log self) = Inr sl \<and> convert_log (rew_log self) = Inr rl) \<longrightarrow>
           fst (save os self filename format save_dir w)
             = Inl (ValueError (''Unsupported format: '' @ format))))
   \<and> (drop 1 (path_suffix (parse_path filepath)) \<noteq> ''json''
       \<and> drop 1 (path_suffix (parse_path filepath)) \<noteq> ''pkl'' \<longrightarrow>
      load os other filepath w'
        = Inl (ValueError (''Unsupported format: '' @ drop 1 (path_suffix (parse_path filepath)))))"
proof (intro conjI impI)
  assume f: "format \<noteq> ''json'' \<and> format \<noteq> ''pkl''"
  obtain r w1 where m: "os_mkdir os (path_str (parse_path save_dir)) w = (r, w1)"
    by (cases "os_mkdir os (path_str (parse_path save_dir)) w") auto
  from f m show "snd (save os self filename format save_dir w)
        = snd (os_mkdir os (path_str (parse_path save_dir)) w)"
    by (cases r) (auto simp: save_def Let_def split: sum.splits)
  from f m show "\<exists>e. fst (save os self filename format save_dir w) = Inl e"
    by (cases r) (auto simp: save_def Let_def split: sum.splits)
next
  assume f: "format \<noteq> ''json'' \<and> format \<noteq> ''pkl''"
    and a: "fst (os_mkdir os (path_str (parse_path save_dir)) w) = None
          \<and> (\<exists>sl rl. convert_log (state_log self) = Inr sl \<and> convert_log (rew_log self) = Inr rl)"
  then obtain w1 where m: "os_mkdir os (path_str (parse_path save_dir)) w = (None, w1)"
    by (cases "os_mkdir os (path_str (parse_path save_dir)) w") auto
  from a obtain sl rl where "convert_log (state_log self) = Inr sl" "convert_log (rew_log self) = Inr rl"
    by blast
  with f m show "fst (save os self filename format save_dir w)
             = Inl (ValueError (''Unsupported format: '' @ format))"
    by (simp add: save_def unsupported_def)
next
  assume "drop 1 (path_suffix (parse_path filepath)) \<noteq> ''json''
       \<and> drop 1 (path_suffix (parse_path filepath)) \<noteq> ''pkl''"
  then show "load os other filepath w'
        = Inl (ValueError (''Unsupported format: '' @ drop 1 (path_suffix (parse_path filepath))))"
    by (simp add: load_def unsupported_def Let_def)
qed

text \<open>
  Claim C8, as stated, asks the usage error of every \<open>save\<close> with an unsupported format.
  The directory is made first: when a file has the name of the directory,
  \<^verbatim>\<open>FileExistsError\<close> is raised and the format is never looked at.
\<close>

theorem unsupported_format_counterexample:
  "save store_os (init 0.5) ''run'' ''xml'' ''logs'' [''logs'' \<mapsto> IncompleteFile]
     = (Inl FileExistsError, [''logs'' \<mapsto> IncompleteFile])"
  by (simp add: save_def store_os_def parse_path_def path_str_def)

text \<open>
  The conversion of the logs comes before the format test as well.
\<close>

lemma conversion_before_format:
  "save store_os
        \<lparr>state_log = [(''dof_pos'', [Tensor (Num 1), Plain (Num 2)])], rew_log = [],
         dt = 0.5, num_episodes = 0\<rparr> ''run'' ''xml'' ''logs'' Map.empty
     = (Inl AttributeError, Map.empty)"
  by (simp add: save_defs)

theorem unsupported_format_witness:
  "''xml'' \<noteq> ''json'' \<and> ''xml'' \<noteq> ''pkl''
   \<and> fst (os_mkdir store_os (path_str (parse_path ''logs'')) Map.empty) = None
   \<and> convert_log [(''dof_pos'', [Tensor (Num 1), Tensor (Num 2)])]
       = Inr [(''dof_pos'', [Plain (Num 1), Plain (Num 2)])]
   \<and> convert_log [] = Inr []
   \<and> save store_os \<lparr>state_log = [(''dof_pos'', [Tensor (Num 1), Tensor (Num 2)])], rew_log = [],
            dt = 0.5, num_episodes = 0\<rparr> ''run'' ''xml'' ''logs'' Map.empty
       = (Inl (ValueError ''Unsupported format: xml''), Map.empty)
   \<and> drop 1 (path_suffix (parse_path ''logs/run.xml'')) = ''xml''
   \<and> load store_os (init 0.5) ''logs/run.xml'' [''logs/run.xml'' \<mapsto> IncompleteFile]
       = Inl (ValueError ''Unsupported format: xml'')"
proof -
  let ?self = "\<lparr>state_log = [(''dof_pos'', [Tensor (Num 1), Tensor (Num 2)])], rew_log = [],
            dt = 0.5, num_episodes = 0\<rparr>"
  have a: "''xml'' \<noteq> ''json'' \<and> ''xml'' \<noteq> ''pkl''"
    by simp
  have m: "os_mkdir store_os (path_str (parse_path ''logs'')) Map.empty = (None, Map.empty)"
    by (simp add: store_os_def)
  have b: "convert_log (state_log ?self) = Inr [(''dof_pos'', [Plain (Num 1), Plain (Num 2)])]"
    by (simp add: convert_values_def cpu_numpy_tolist_def)
  have c: "convert_log (rew_log ?self) = Inr []"
    by simp
  have d: "drop 1 (path_suffix (parse_path ''logs/run.xml'')) = ''xml''"
    by (simp add: path_suffix_def path_name_def parse_path_def)
  from unsupported_format [where format = "''xml''" and self = ?self and filename = "''run''"
         and save_dir = "''logs''" and w = Map.empty and os = store_os
         and filepath = "''logs/run.xml''" and other = "init 0.5"
         and w' = "[''logs/run.xml'' \<mapsto> IncompleteFile]"] a b c d m
  have e: "snd (save store_os ?self ''run'' ''xml'' ''logs'' Map.empty) = Map.empty"
    and f: "fst (save store_os ?self ''run'' ''xml'' ''logs'' Map.empty)
              = Inl (ValueError ''Unsupported format: xml'')"
    and g: "load store_os (init 0.5) ''logs/run.xml'' [''logs/run.xml'' \<mapsto> IncompleteFile]
              = Inl (ValueError ''Unsupported format: xml'')"
    by auto
  from e f have h: "save store_os ?self ''run'' ''xml'' ''logs'' Map.empty
       = (Inl (ValueError ''Unsupported format: xml''), Map.empty)"
    by (metis prod.collapse)
  from m have m': "fst (os_mkdir store_os (path_str (parse_path ''logs'')) Map.empty) = None"
    by simp
  from a m' b c d g h show ?thesis by simp
qed

end
